theory Spec2Isabelle
  imports Complex_Main
begin

section \<open>Historical Temperature Visualizer: the computations of v1.0.py\<close>

text \<open>
  The script \<^verbatim>\<open>v1.0.py\<close> receives a pandas data frame \<^verbatim>\<open>df\<close> with the columns
  \<^verbatim>\<open>year\<close>, \<^verbatim>\<open>day\<close> and \<^verbatim>\<open>max_temp\<close> and derives from it the yearly averages
  (line 86), the slope of a straight-line fit (line 93), three summary statistics
  (lines 99 to 101), the trend's direction and magnitude (lines 104 and 105) and the
  day by year grid of the heat map (line 117).

  The embedding follows those lines. A float64 is the real number it denotes, or
  \<open>NaN\<close>, pandas' marker of a missing value; infinities do not occur in temperature data
  and are left out. Arithmetic is exact: the rounding of binary64 is not part of
  this model, except in the section on the binary64 mean, which models the rounding of
  line 99 alone. The pandas and numpy operations the script calls are modelled by
  their documented behaviour.
\<close>

subsection \<open>Floats with a missing marker\<close>

datatype pyfloat = NaN | Fin real

fun isna :: "pyfloat \<Rightarrow> bool" where
  "isna NaN = True"
| "isna (Fin v) = False"

text \<open>Comparisons of Python floats: every comparison with \<open>NaN\<close> is false.\<close>

fun py_gt :: "pyfloat \<Rightarrow> pyfloat \<Rightarrow> bool" where
  "py_gt (Fin a) (Fin b) = (a > b)"
| "py_gt _ _ = False"

fun py_lt :: "pyfloat \<Rightarrow> pyfloat \<Rightarrow> bool" where
  "py_lt (Fin a) (Fin b) = (a < b)"
| "py_lt _ _ = False"

fun py_eq :: "pyfloat \<Rightarrow> pyfloat \<Rightarrow> bool" where
  "py_eq (Fin a) (Fin b) = (a = b)"
| "py_eq _ _ = False"


text \<open>Arithmetic: \<open>NaN\<close> propagates.\<close>

fun py_mul :: "pyfloat \<Rightarrow> pyfloat \<Rightarrow> pyfloat" where
  "py_mul (Fin a) (Fin b) = Fin (a * b)"
| "py_mul _ _ = NaN"

fun py_abs :: "pyfloat \<Rightarrow> pyfloat" where
  "py_abs (Fin a) = Fin \<bar>a\<bar>"
| "py_abs NaN = NaN"

subsection \<open>The data frame\<close>

text \<open>
  One row of \<^verbatim>\<open>df\<close>: the year, the day of the month and that day's maximum
  temperature, \<open>NaN\<close> when the data source has no value for the day.
\<close>

record row =
  year :: int
  day :: int
  max_temp :: pyfloat

type_synonym dataframe = "row list"

subsection \<open>Series reductions (pandas, \<^verbatim>\<open>skipna=True\<close>)\<close>

text \<open>
  \<^verbatim>\<open>Series.mean()\<close> (pandas \<^verbatim>\<open>nanops.nanmean\<close>): the missing values are replaced by 0
  and the array is summed; the count is the number of values that are not missing; the
  mean is the sum divided by the count, and \<open>NaN\<close> when the count is 0.
\<close>

fun fill0 :: "pyfloat \<Rightarrow> real" where
  "fill0 NaN = 0"
| "fill0 (Fin v) = v"

definition notna_count :: "pyfloat list \<Rightarrow> nat" where
  "notna_count xs = length (filter (\<lambda>x. \<not> isna x) xs)"

definition series_mean :: "pyfloat list \<Rightarrow> pyfloat" where
  "series_mean xs =
     (let count = notna_count xs;
          the_sum = sum_list (map fill0 xs)
      in if count > 0 then Fin (the_sum / real count) else NaN)"

text \<open>
  \<^verbatim>\<open>Series.max()\<close> and \<^verbatim>\<open>Series.min()\<close>: the largest and the smallest of the values
  that are not missing, \<open>NaN\<close> when there is none.
\<close>

fun max_step :: "pyfloat \<Rightarrow> pyfloat \<Rightarrow> pyfloat" where
  "max_step NaN acc = acc"
| "max_step (Fin v) NaN = Fin v"
| "max_step (Fin v) (Fin a) = Fin (max a v)"

fun min_step :: "pyfloat \<Rightarrow> pyfloat \<Rightarrow> pyfloat" where
  "min_step NaN acc = acc"
| "min_step (Fin v) NaN = Fin v"
| "min_step (Fin v) (Fin a) = Fin (min a v)"

definition series_max :: "pyfloat list \<Rightarrow> pyfloat" where
  "series_max xs = fold max_step xs NaN"

definition series_min :: "pyfloat list \<Rightarrow> pyfloat" where
  "series_min xs = fold min_step xs NaN"

subsection \<open>Yearly averages (line 86)\<close>

text \<open>
  \<^verbatim>\<open>df.groupby('year')['max_temp'].mean().reset_index()\<close>: one row for every distinct
  year of the frame, the years in ascending order (\<^verbatim>\<open>sort=True\<close> is the default), with
  the mean of the group's values that are not missing.
\<close>

definition group_values :: "dataframe \<Rightarrow> int \<Rightarrow> pyfloat list" where
  "group_values df y = map max_temp (filter (\<lambda>r. year r = y) df)"

definition yearly_avg :: "dataframe \<Rightarrow> (int \<times> pyfloat) list" where
  "yearly_avg df =
     map (\<lambda>y. (y, series_mean (group_values df y))) (sort (remdups (map year df)))"

subsection \<open>Errors and messages\<close>

text \<open>
  The exceptions the modelled calls can raise (all of them end in the handler of
  line 175, which prints the exception's text), and the message of line 174, shown
  without any exception when the frame is \<^verbatim>\<open>None\<close> or empty.
\<close>

datatype error =
    NoDataAvailable
  | TypeError
  | ValueError
  | LinAlgError

subsection \<open>The straight-line fit (line 93)\<close>

text \<open>
  \<^verbatim>\<open>np.polyfit(x, y, 1)\<close> returns the coefficients \<open>(slope, intercept)\<close> of the
  least-squares line through the points. numpy raises \<^verbatim>\<open>TypeError\<close> for an empty
  \<open>x\<close>. It scales the two columns \<open>x\<close> and \<open>1\<close> of the design matrix by their norms
  and solves with \<^verbatim>\<open>lstsq\<close>:
  \<^item> a \<open>NaN\<close> among the \<open>y\<close> propagates to both coefficients;
  \<^item> when the \<open>x\<close> are not all equal the solution is the one of the normal equations;
  \<^item> when they are all equal to some \<open>x0\<close> (a single point, for one) the matrix has
    rank 1, numpy warns (\<^verbatim>\<open>RankWarning\<close>) and returns the solution of minimum norm of the
    scaled system, which is \<open>(m / (2 * x0), m / 2)\<close> for the mean \<open>m\<close> of the \<open>y\<close>;
    for \<open>x0 = 0\<close> the scaling divides by zero and \<^verbatim>\<open>lstsq\<close> fails on the resulting
    matrix.
\<close>

definition polyfit :: "(int \<times> pyfloat) list \<Rightarrow> error + (pyfloat \<times> pyfloat)" where
  "polyfit pts =
     (if pts = [] then Inl TypeError
      else if list_ex (\<lambda>p. isna (snd p)) pts then Inr (NaN, NaN)
      else
        let xs = map (\<lambda>p. real_of_int (fst p)) pts;
            ys = map (\<lambda>p. fill0 (snd p)) pts;
            n = real (length pts);
            sx = sum_list xs;
            sy = sum_list ys;
            sxx = sum_list (map (\<lambda>x. x * x) xs);
            sxy = sum_list (map (\<lambda>(x, y). x * y) (zip xs ys));
            den = n * sxx - sx * sx
        in if den \<noteq> 0 then
             (let slope = (n * sxy - sx * sy) / den
              in Inr (Fin slope, Fin ((sy - slope * sx) / n)))
           else if hd xs = 0 then Inl LinAlgError
           else Inr (Fin (sy / n / (2 * hd xs)), Fin (sy / n / 2)))"

subsection \<open>Direction and magnitude of the trend (lines 104 and 105)\<close>

definition trend_direction :: "pyfloat \<Rightarrow> string" where
  "trend_direction slope =
     (if py_gt slope (Fin 0) then ''Rising''
      else if py_lt slope (Fin 0) then ''Falling''
      else ''Stable'')"

definition trend_magnitude :: "pyfloat \<Rightarrow> pyfloat" where
  "trend_magnitude slope = py_abs (py_mul slope (Fin 10))"

subsection \<open>The heat map's grid (line 117)\<close>

text \<open>
  \<^verbatim>\<open>df.pivot(index='day', columns='year', values='max_temp')\<close>: the row labels are the
  distinct days and the column labels the distinct years, both ascending; a cell holds
  the \<^verbatim>\<open>max_temp\<close> of the frame's row with that day and year, and \<open>NaN\<close> when the
  frame has no such row. pandas raises \<^verbatim>\<open>ValueError\<close> ("Index contains duplicate
  entries, cannot reshape") when two rows have the same day and year.
\<close>

record grid =
  g_index :: "int list"
  g_columns :: "int list"
  g_values :: "pyfloat list list"

definition cell :: "dataframe \<Rightarrow> int \<Rightarrow> int \<Rightarrow> pyfloat" where
  "cell df d y =
     (case filter (\<lambda>r. day r = d \<and> year r = y) df of
        [] \<Rightarrow> NaN
      | r # _ \<Rightarrow> max_temp r)"

definition pivot :: "dataframe \<Rightarrow> error + grid" where
  "pivot df =
     (if \<not> distinct (map (\<lambda>r. (day r, year r)) df) then Inl ValueError
      else
        let idx = sort (remdups (map day df));
            cols = sort (remdups (map year df))
        in Inr \<lparr>g_index = idx, g_columns = cols,
                g_values = map (\<lambda>d. map (\<lambda>y. cell df d y) cols) idx\<rparr>)"

subsection \<open>The whole computation (lines 81 to 117)\<close>

text \<open>
  What the script shows for a frame: the three summary metrics, the trend metric, the
  number of years and the grid. The frame comes from \<^verbatim>\<open>fetch_historical_weather_data\<close>
  (\<open>None\<close> models Python's \<^verbatim>\<open>None\<close>). The statements run in the script's order, so
  the first exception decides the outcome. Rendering (plotly, streamlit) is not modelled.
\<close>

record report =
  r_yearly_avg :: "(int \<times> pyfloat) list"
  r_slope :: pyfloat
  r_mean :: pyfloat
  r_max :: pyfloat
  r_min :: pyfloat
  r_direction :: string
  r_magnitude :: pyfloat
  r_total_years :: nat
  r_heatmap :: grid

definition visualize :: "dataframe option \<Rightarrow> error + report" where
  "visualize frame =
     (case frame of
        None \<Rightarrow> Inl NoDataAvailable
      | Some df \<Rightarrow>
          if df = [] then Inl NoDataAvailable
          else
            let ya = yearly_avg df in
            (case polyfit ya of
               Inl e \<Rightarrow> Inl e
             | Inr (slope, intercept) \<Rightarrow>
                 (case pivot df of
                    Inl e \<Rightarrow> Inl e
                  | Inr heatmap_data \<Rightarrow>
                      Inr \<lparr>r_yearly_avg = ya,
                           r_slope = slope,
                           r_mean = series_mean (map max_temp df),
                           r_max = series_max (map max_temp df),
                           r_min = series_min (map max_temp df),
                           r_direction = trend_direction slope,
                           r_magnitude = trend_magnitude slope,
                           r_total_years = length ya,
                           r_heatmap = heatmap_data\<rparr>)))"

subsection \<open>The values that are not missing\<close>

text \<open>
  The specification speaks of "every non-missing Observation value": the values of a
  column that are not \<open>NaN\<close>, in the column's order. The reductions above are compared
  with sums, maxima and minima over this list.
\<close>

primrec non_missing :: "pyfloat list \<Rightarrow> real list" where
  "non_missing [] = []"
| "non_missing (x # xs) = (case x of NaN \<Rightarrow> non_missing xs | Fin v \<Rightarrow> v # non_missing xs)"

subsection \<open>Monotonic sequences and the sums of the normal equations\<close>




text \<open>
  For points \<open>ps\<close> with the coordinates \<open>f\<close> and \<open>g\<close>, \<open>cross f g ps\<close> is the
  quantity \<open>n * sum (f * g) - sum f * sum g\<close> of the normal equations: the slope of
  the fit is \<open>cross x y / cross x x\<close>.
\<close>

definition cross :: "('a \<Rightarrow> real) \<Rightarrow> ('a \<Rightarrow> real) \<Rightarrow> 'a list \<Rightarrow> real" where
  "cross f g ps =
     real (length ps) * (\<Sum>p\<leftarrow>ps. f p * g p) - (\<Sum>p\<leftarrow>ps. f p) * (\<Sum>p\<leftarrow>ps. g p)"

abbreviation fx :: "int \<times> pyfloat \<Rightarrow> real" where "fx p \<equiv> real_of_int (fst p)"
abbreviation fy :: "int \<times> pyfloat \<Rightarrow> real" where "fy p \<equiv> fill0 (snd p)"

subsection \<open>The binary64 mean (line 99)\<close>







section \<open>Properties\<close>

subsection \<open>Series reductions\<close>

lemma sum_fill0: "sum_list (map fill0 xs) = sum_list (non_missing xs)"
  by (induction xs) (auto split: pyfloat.splits)

lemma notna_count_non_missing: "notna_count xs = length (non_missing xs)"
  unfolding notna_count_def by (induction xs) (auto split: pyfloat.splits)

lemma non_missing_Nil: "non_missing xs = [] \<longleftrightarrow> (\<forall>x\<in>set xs. isna x)"
  by (induction xs) (auto split: pyfloat.splits)

lemma series_mean_non_missing:
  "series_mean xs =
     (if non_missing xs = [] then NaN
      else Fin (sum_list (non_missing xs) / real (length (non_missing xs))))"
  by (simp add: series_mean_def sum_fill0 notna_count_non_missing)





subsection \<open>Yearly averages\<close>



text \<open>
  Claim C3 says that a year whose observations are all missing does not appear among the
  yearly averages. The group-by of line 86 keeps every year of the frame: in the frame
  below the year 2020 has one observation, which is missing, and the year is in the
  output with the average \<open>NaN\<close>.
\<close>

theorem all_missing_year_counterexample:
  "yearly_avg [\<lparr>year = 2020, day = 1, max_temp = NaN\<rparr>,
               \<lparr>year = 2021, day = 1, max_temp = Fin 5\<rparr>]
   = [(2020, NaN), (2021, Fin 5)]"
  by (simp add: yearly_avg_def group_values_def series_mean_def notna_count_def)

text \<open>
  Claim C3, as amended: a year of the frame whose observations are all missing appears
  among the yearly averages with the missing marker \<open>NaN\<close> as its average; it is not
  omitted, and its average is not a number (not zero in particular).
\<close>

theorem all_missing_year_kept:
  assumes "y \<in> year ` set df"
    and "\<forall>r\<in>set df. year r = y \<longrightarrow> isna (max_temp r)"
  shows "(y, NaN) \<in> set (yearly_avg df)"
proof -
  have "\<forall>x\<in>set (group_values df y). isna x"
    using assms(2) by (auto simp: group_values_def)
  then have "series_mean (group_values df y) = NaN"
    by (simp add: series_mean_non_missing non_missing_Nil)
  moreover have "y \<in> set (sort (remdups (map year df)))"
    using assms(1) by simp
  ultimately show ?thesis
    unfolding yearly_avg_def by force
qed

theorem all_missing_year_kept_witness:
  "(2020, NaN) \<in> set (yearly_avg [\<lparr>year = 2020, day = 1, max_temp = NaN\<rparr>,
                                   \<lparr>year = 2021, day = 1, max_temp = Fin 5\<rparr>])"
  by (rule all_missing_year_kept) simp_all

subsection \<open>Direction and magnitude\<close>

text \<open>
  Claim C10: when the fitted slope is \<open>NaN\<close>, the classification of line 104 gives
  "Stable", because neither \<open>slope > 0\<close> nor \<open>slope < 0\<close> holds for \<open>NaN\<close>, and the
  magnitude of line 105 is \<open>NaN\<close>; the value is shown as a stable trend, no error is
  raised. The frame below has a single year whose observations are all missing: its
  one yearly average is \<open>NaN\<close>, so is the slope, and the report is produced.
\<close>

theorem nan_slope_is_stable:
  "trend_direction NaN = ''Stable'' \<and> trend_magnitude NaN = NaN
   \<and> \<not> py_gt NaN (Fin 0) \<and> \<not> py_lt NaN (Fin 0)
   \<and> visualize (Some [\<lparr>year = 2021, day = 1, max_temp = NaN\<rparr>,
                      \<lparr>year = 2021, day = 2, max_temp = NaN\<rparr>]) =
       Inr \<lparr>r_yearly_avg = [(2021, NaN)], r_slope = NaN, r_mean = NaN, r_max = NaN,
            r_min = NaN, r_direction = ''Stable'', r_magnitude = NaN, r_total_years = 1,
            r_heatmap = \<lparr>g_index = [1, 2], g_columns = [2021],
                         g_values = [[NaN], [NaN]]\<rparr>\<rparr>"
  by (simp add: visualize_def yearly_avg_def group_values_def series_mean_def
      notna_count_def polyfit_def pivot_def cell_def series_max_def series_min_def
      trend_direction_def trend_magnitude_def)

text \<open>
  Claim C6 says that the direction is "Stable" exactly when the slope equals 0. A frame
  with a year whose observations are all missing has a yearly average \<open>NaN\<close>, the fit
  returns the slope \<open>NaN\<close>, and the direction is "Stable" although \<open>NaN == 0\<close> is
  false.
\<close>

theorem direction_counterexample:
  "polyfit (yearly_avg [\<lparr>year = 2020, day = 1, max_temp = NaN\<rparr>,
                        \<lparr>year = 2021, day = 1, max_temp = Fin 5\<rparr>]) = Inr (NaN, NaN)
   \<and> trend_direction NaN = ''Stable'' \<and> \<not> py_eq NaN (Fin 0)"
  by (simp add: yearly_avg_def group_values_def series_mean_def notna_count_def
      polyfit_def trend_direction_def)

text \<open>
  Claim C6, as amended: the direction is "Rising" exactly when \<open>slope > 0\<close>, "Falling"
  exactly when \<open>slope < 0\<close>, and "Stable" in every other case, that is exactly when the
  slope equals 0 or is \<open>NaN\<close>.
\<close>

theorem direction_classification:
  "(trend_direction s = ''Rising'' \<longleftrightarrow> py_gt s (Fin 0))
   \<and> (trend_direction s = ''Falling'' \<longleftrightarrow> py_lt s (Fin 0))
   \<and> (trend_direction s = ''Stable'' \<longleftrightarrow> py_eq s (Fin 0) \<or> isna s)"
  by (cases s) (auto simp: trend_direction_def)


subsection \<open>The fit and the whole computation\<close>




















subsection \<open>The grid\<close>

lemma cell_present:
  assumes "distinct (map (\<lambda>r. (day r, year r)) df)" and "r \<in> set df"
  shows "cell df (day r) (year r) = max_temp r"
proof -
  have "filter (\<lambda>q. day q = day r \<and> year q = year r) df = [r]"
    using assms
  proof (induction df)
    case Nil
    then show ?case by simp
  next
    case (Cons q df)
    show ?case
    proof (cases "q = r")
      case True
      have "filter (\<lambda>q. day q = day r \<and> year q = year r) df = []"
        using Cons.prems(1) True by (auto simp: filter_empty_conv image_iff)
      then show ?thesis using True by simp
    next
      case False
      then have "r \<in> set df" using Cons.prems(2) by simp
      moreover have "\<not> (day q = day r \<and> year q = year r)"
        using Cons.prems(1) \<open>r \<in> set df\<close> by (auto simp: image_iff)
      ultimately show ?thesis using Cons by simp
    qed
  qed
  then show ?thesis by (simp add: cell_def)
qed

lemma cell_absent:
  assumes "\<not> (\<exists>r\<in>set df. day r = d \<and> year r = y)"
  shows "cell df d y = NaN"
proof -
  have "filter (\<lambda>r. day r = d \<and> year r = y) df = []"
    using assms by (auto simp: filter_empty_conv)
  then show ?thesis by (simp add: cell_def)
qed

text \<open>
  Claim C4: for every observation set (no two rows with the same year and day) the
  pivot of line 117 succeeds, and the grid has exactly one row per distinct day of the
  frame and exactly one column per distinct year; the cell of a day and a year holds the
  value of the frame's row for that pair, and the missing marker \<open>NaN\<close> (which is not
  a number, so neither zero nor an imputed value) when the frame has no such row.
\<close>

theorem grid_shape_and_cells:
  assumes "distinct (map (\<lambda>r. (year r, day r)) df)"
  shows "\<exists>g. pivot df = Inr g
     \<and> distinct (g_index g) \<and> set (g_index g) = day ` set df
     \<and> length (g_index g) = card (day ` set df)
     \<and> distinct (g_columns g) \<and> set (g_columns g) = year ` set df
     \<and> length (g_columns g) = card (year ` set df)
     \<and> length (g_values g) = length (g_index g)
     \<and> (\<forall>i<length (g_index g). length (g_values g ! i) = length (g_columns g))
     \<and> (\<forall>i<length (g_index g). \<forall>j<length (g_columns g).
          (\<forall>r\<in>set df. day r = g_index g ! i \<and> year r = g_columns g ! j
              \<longrightarrow> g_values g ! i ! j = max_temp r)
          \<and> ((\<nexists>r. r \<in> set df \<and> day r = g_index g ! i \<and> year r = g_columns g ! j)
              \<longrightarrow> g_values g ! i ! j = NaN))"
proof -
  have d: "distinct (map (\<lambda>r. (day r, year r)) df)"
    using assms by (auto simp: distinct_map inj_on_def)
  let ?idx = "sort (remdups (map day df))"
  let ?cols = "sort (remdups (map year df))"
  let ?g = "\<lparr>g_index = ?idx, g_columns = ?cols,
            g_values = map (\<lambda>d. map (\<lambda>y. cell df d y) ?cols) ?idx\<rparr>"
  have p: "pivot df = Inr ?g" using d by (simp add: pivot_def Let_def)
  have li: "length ?idx = card (day ` set df)"
    by (metis distinct_card distinct_remdups distinct_sort length_sort set_map set_remdups set_sort)
  have lc: "length ?cols = card (year ` set df)"
    by (metis distinct_card distinct_remdups distinct_sort length_sort set_map set_remdups set_sort)
  have cells: "\<forall>i<length ?idx. \<forall>j<length ?cols.
          (\<forall>r\<in>set df. day r = ?idx ! i \<and> year r = ?cols ! j
              \<longrightarrow> g_values ?g ! i ! j = max_temp r)
          \<and> ((\<nexists>r. r \<in> set df \<and> day r = ?idx ! i \<and> year r = ?cols ! j)
              \<longrightarrow> g_values ?g ! i ! j = NaN)"
  proof (intro allI impI conjI ballI)
    fix i j r
    assume ij: "i < length ?idx" "j < length ?cols"
      and r: "r \<in> set df" "day r = ?idx ! i \<and> year r = ?cols ! j"
    have "g_values ?g ! i ! j = cell df (?idx ! i) (?cols ! j)" using ij by simp
    also have "\<dots> = cell df (day r) (year r)" using r(2) by simp
    also have "\<dots> = max_temp r" using d r(1) by (rule cell_present)
    finally show "g_values ?g ! i ! j = max_temp r" .
  next
    fix i j
    assume ij: "i < length ?idx" "j < length ?cols"
      and n: "\<nexists>r. r \<in> set df \<and> day r = ?idx ! i \<and> year r = ?cols ! j"
    have "g_values ?g ! i ! j = cell df (?idx ! i) (?cols ! j)" using ij by simp
    also have "\<dots> = NaN" using n by (intro cell_absent) blast
    finally show "g_values ?g ! i ! j = NaN" .
  qed
  show ?thesis
    apply (rule exI [of _ ?g])
    using p li lc cells by simp
qed

theorem grid_shape_and_cells_witness:
  "\<exists>g. pivot [\<lparr>year = 2020, day = 28, max_temp = Fin 5\<rparr>,
              \<lparr>year = 2020, day = 29, max_temp = Fin 6\<rparr>,
              \<lparr>year = 2021, day = 28, max_temp = Fin 7\<rparr>] = Inr g
     \<and> g_index g = [28, 29] \<and> g_columns g = [2020, 2021]
     \<and> length (g_index g) = card {28, 29 :: int}
     \<and> g_values g = [[Fin 5, Fin 7], [Fin 6, NaN]]"
  using grid_shape_and_cells [of "[\<lparr>year = 2020, day = 28, max_temp = Fin 5\<rparr>,
              \<lparr>year = 2020, day = 29, max_temp = Fin 6\<rparr>,
              \<lparr>year = 2021, day = 28, max_temp = Fin 7\<rparr>]"]
  by (simp add: pivot_def cell_def)

subsection \<open>The sign of the slope\<close>









lemma polyfit_normal_equations:
  assumes "pts \<noteq> []" and "\<forall>p\<in>set pts. \<not> isna (snd p)" and "cross fx fx pts \<noteq> 0"
  shows "polyfit pts =
     Inr (Fin (cross fx fy pts / cross fx fx pts),
          Fin ((sum_list (map fy pts) - cross fx fy pts / cross fx fx pts * sum_list (map fx pts))
               / real (length pts)))"
proof -
  have z: "zip (map fx pts) (map fy pts) = map (\<lambda>p. (fx p, fy p)) pts"
    by (induction pts) simp_all
  have sxy: "sum_list (map (\<lambda>(x, y). x * y) (zip (map fx pts) (map fy pts)))
      = (\<Sum>p\<leftarrow>pts. fx p * fy p)"
    unfolding z by (simp add: comp_def)
  have sxx: "sum_list (map (\<lambda>x. x * x) (map fx pts)) = (\<Sum>p\<leftarrow>pts. fx p * fx p)"
    by (simp add: comp_def)
  have nx: "\<not> list_ex (\<lambda>p. isna (snd p)) pts"
    using assms(2) by (simp add: list_ex_iff)
  have den: "real (length pts) * (\<Sum>p\<leftarrow>pts. fx p * fx p)
      - sum_list (map fx pts) * sum_list (map fx pts) \<noteq> 0"
    using assms(3) by (simp add: cross_def)
  show ?thesis
    unfolding polyfit_def Let_def sxy sxx
    using assms(1) nx den by (simp add: cross_def)
qed


text \<open>
  The coefficients of the model are those of the least-squares line: no other line has a
  smaller sum of squared residuals.
\<close>

lemma residual_sum:
  "(\<Sum>p\<leftarrow>ps. g p - (a * f p + b)) =
     (\<Sum>p\<leftarrow>ps. g p) - a * (\<Sum>p\<leftarrow>ps. f p) - real (length ps) * (b::real)"
  by (induction ps) (simp_all add: algebra_simps)

lemma residual_moment:
  "(\<Sum>p\<leftarrow>ps. f p * (g p - (a * f p + b))) =
     (\<Sum>p\<leftarrow>ps. f p * g p) - a * (\<Sum>p\<leftarrow>ps. f p * f p) - (b::real) * (\<Sum>p\<leftarrow>ps. f p)"
  by (induction ps) (simp_all add: algebra_simps)

lemma squares_shift:
  "(\<Sum>p\<leftarrow>ps. (r p + (d * f p + e))\<^sup>2) =
     (\<Sum>p\<leftarrow>ps. (r p)\<^sup>2) + 2 * d * (\<Sum>p\<leftarrow>ps. f p * r p) + 2 * e * (\<Sum>p\<leftarrow>ps. r p)
       + (\<Sum>p\<leftarrow>ps. (d * f p + (e::real))\<^sup>2)"
  by (induction ps) (simp_all add: algebra_simps power2_eq_square)

lemma polyfit_least_squares:
  assumes "pts \<noteq> []" and "\<forall>p\<in>set pts. \<not> isna (snd p)" and "cross fx fx pts \<noteq> 0"
  shows "\<exists>a b. polyfit pts = Inr (Fin a, Fin b)
           \<and> (\<forall>a' b'. (\<Sum>p\<leftarrow>pts. (fy p - (a * fx p + b))\<^sup>2)
                        \<le> (\<Sum>p\<leftarrow>pts. (fy p - (a' * fx p + b'))\<^sup>2))"
proof -
  define n where "n = real (length pts)"
  define sx where "sx = sum_list (map fx pts)"
  define sy where "sy = sum_list (map fy pts)"
  define a where "a = cross fx fy pts / cross fx fx pts"
  define b where "b = (sy - a * sx) / n"
  define r where "r = (\<lambda>p. fy p - (a * fx p + b))"
  have n: "n \<noteq> 0" using assms(1) by (simp add: n_def)
  have fit: "polyfit pts = Inr (Fin a, Fin b)"
    using polyfit_normal_equations [OF assms] by (simp add: a_def b_def sx_def sy_def n_def)
  have r0: "(\<Sum>p\<leftarrow>pts. r p) = 0"
    unfolding r_def residual_sum using n by (simp add: b_def sx_def sy_def n_def)
  have "a * cross fx fx pts = cross fx fy pts" using assms(3) by (simp add: a_def)
  then have ne: "a * (n * (\<Sum>p\<leftarrow>pts. fx p * fx p) - sx * sx)
      = n * (\<Sum>p\<leftarrow>pts. fx p * fy p) - sx * sy"
    by (simp add: cross_def n_def sx_def sy_def)
  have "n * (\<Sum>p\<leftarrow>pts. fx p * r p) =
      n * (\<Sum>p\<leftarrow>pts. fx p * fy p) - a * n * (\<Sum>p\<leftarrow>pts. fx p * fx p) - (n * b) * sx"
    unfolding r_def residual_moment by (simp add: algebra_simps sx_def)
  also have "n * b = sy - a * sx" using n by (simp add: b_def)
  also have "n * (\<Sum>p\<leftarrow>pts. fx p * fy p) - a * n * (\<Sum>p\<leftarrow>pts. fx p * fx p) - (sy - a * sx) * sx = 0"
    using ne by (simp add: algebra_simps)
  finally have r1: "(\<Sum>p\<leftarrow>pts. fx p * r p) = 0" using n by simp
  have "(\<Sum>p\<leftarrow>pts. (r p)\<^sup>2) \<le> (\<Sum>p\<leftarrow>pts. (fy p - (a' * fx p + b'))\<^sup>2)" for a' b'
  proof -
    have "(\<Sum>p\<leftarrow>pts. (fy p - (a' * fx p + b'))\<^sup>2)
        = (\<Sum>p\<leftarrow>pts. (r p + ((a - a') * fx p + (b - b')))\<^sup>2)"
      by (rule arg_cong [where f = sum_list]) (simp add: r_def algebra_simps)
    also have "\<dots> = (\<Sum>p\<leftarrow>pts. (r p)\<^sup>2) + (\<Sum>p\<leftarrow>pts. ((a - a') * fx p + (b - b'))\<^sup>2)"
      unfolding squares_shift r0 r1 by simp
    finally have eq: "(\<Sum>p\<leftarrow>pts. (fy p - (a' * fx p + b'))\<^sup>2)
        = (\<Sum>p\<leftarrow>pts. (r p)\<^sup>2) + (\<Sum>p\<leftarrow>pts. ((a - a') * fx p + (b - b'))\<^sup>2)" .
    have "0 \<le> (\<Sum>p\<leftarrow>pts. ((a - a') * fx p + (b - b'))\<^sup>2)"
      by (rule sum_list_nonneg) auto
    with eq show ?thesis by simp
  qed
  then show ?thesis using fit unfolding r_def by blast
qed











subsection \<open>Bounds of the summary statistics\<close>







end
